theory Spec2Isabelle
  imports Complex_Main
begin

section \<open>API responses and the mock API (services/mockApi.ts, services/api.ts)\<close>

text \<open>
  Every API call resolves to an object \<open>{data}\<close> or \<open>{error}\<close>; the model is a sum
  with the error string on the left.  The \<open>delay\<close> calls of the mock only postpone the
  resolution of the promise and are not modelled.
\<close>

type_synonym 'a ApiResponse = "string + 'a"

record TokenResponse =
  access_token :: string
  user_id :: string
  tr_status :: string

text \<open>\<open>if (otp && otp.length > 0)\<close>: a string is truthy exactly when it is not empty.\<close>

definition truthy_str :: "string \<Rightarrow> bool" where
  "truthy_str s = (s \<noteq> [])"

definition verifyOTP :: "string \<Rightarrow> string \<Rightarrow> TokenResponse ApiResponse" where
  "verifyOTP phoneNumber otp =
     (if truthy_str otp \<and> length otp > 0
      then Inr \<lparr>access_token = ''mock-token-12345'',
                user_id = ''user-mock-id'',
                tr_status = ''onboarding''\<rparr>
      else Inl ''Please enter an OTP'')"

datatype Decision = Continue | Pass

definition decision_str :: "Decision \<Rightarrow> string" where
  "decision_str d = (case d of Continue \<Rightarrow> ''continue'' | Pass \<Rightarrow> ''pass'')"

record DecisionResponse =
  dr_message :: string
  your_decision :: string
  waiting_for_partner :: bool
  match_status :: string

definition mock_submitDecision :: "string \<Rightarrow> string \<Rightarrow> DecisionResponse ApiResponse" where
  "mock_submitDecision matchId decision =
     Inr \<lparr>dr_message = ''Decision recorded'',
          your_decision = decision,
          waiting_for_partner = True,
          match_status = ''revealed''\<rparr>"

record MatchSummary =
  ms_id :: string
  partner_pseudonym :: string
  initial_compatibility :: real
  current_compatibility :: real
  ms_status :: string

definition mock_getCurrentMatch :: "MatchSummary ApiResponse" where
  "mock_getCurrentMatch = Inl ''No active match''"

definition USE_MOCK_API :: bool where
  "USE_MOCK_API = True"

text \<open>
  \<open>ApiService\<close> forwards to the mock while \<open>USE_MOCK_API\<close> is set; otherwise it issues
  an HTTP request, whose outcome is the parameter \<open>request\<close>.
\<close>

definition api_verifyOTP ::
  "TokenResponse ApiResponse \<Rightarrow> string \<Rightarrow> string \<Rightarrow> TokenResponse ApiResponse" where
  "api_verifyOTP request phoneNumber otp =
     (if USE_MOCK_API then verifyOTP phoneNumber otp else request)"

definition api_submitDecision ::
  "DecisionResponse ApiResponse \<Rightarrow> string \<Rightarrow> Decision \<Rightarrow> DecisionResponse ApiResponse" where
  "api_submitDecision request matchId decision =
     (if USE_MOCK_API then mock_submitDecision matchId (decision_str decision) else request)"

definition api_getCurrentMatch :: "MatchSummary ApiResponse \<Rightarrow> MatchSummary ApiResponse" where
  "api_getCurrentMatch request = (if USE_MOCK_API then mock_getCurrentMatch else request)"


section \<open>The user store (stores/userStore)\<close>

datatype UserStatus = onboarding | active | paused | in_chat

definition status_str :: "UserStatus \<Rightarrow> string" where
  "status_str u = (case u of onboarding \<Rightarrow> ''onboarding'' | active \<Rightarrow> ''active''
                   | paused \<Rightarrow> ''paused'' | in_chat \<Rightarrow> ''in_chat'')"

datatype Platform = Web | Native

text \<open>
  The persisted storage: \<open>localStorage\<close> on the web, the secure store elsewhere.  Both
  are key-value stores; the model keeps one map for each and the platform selects.
\<close>

record Storage =
  localStorage :: "string \<rightharpoonup> string"
  secureStore :: "string \<rightharpoonup> string"

definition setItem :: "Platform \<Rightarrow> string \<Rightarrow> string \<Rightarrow> Storage \<Rightarrow> Storage" where
  "setItem os key v sto =
     (if os = Web then sto\<lparr>localStorage := (localStorage sto)(key \<mapsto> v)\<rparr>
      else sto\<lparr>secureStore := (secureStore sto)(key \<mapsto> v)\<rparr>)"

definition getItem :: "Platform \<Rightarrow> string \<Rightarrow> Storage \<Rightarrow> string option" where
  "getItem os key sto = (if os = Web then localStorage sto key else secureStore sto key)"

definition deleteItem :: "Platform \<Rightarrow> string \<Rightarrow> Storage \<Rightarrow> Storage" where
  "deleteItem os key sto =
     (if os = Web then sto\<lparr>localStorage := (localStorage sto)(key := None)\<rparr>
      else sto\<lparr>secureStore := (secureStore sto)(key := None)\<rparr>)"

record UserState =
  token :: "string option"
  userId :: "string option"
  status :: "UserStatus option"
  currentMatchId :: "string option"

definition initial_UserState :: UserState where
  "initial_UserState = \<lparr>token = None, userId = None, status = None, currentMatchId = None\<rparr>"

text \<open>The store together with the storage it persists to.\<close>

type_synonym Session = "UserState \<times> Storage"

definition setAuth :: "Platform \<Rightarrow> string \<Rightarrow> string \<Rightarrow> UserStatus \<Rightarrow> Session \<Rightarrow> Session" where
  "setAuth os tok uid st = (\<lambda>(u, sto).
     (u\<lparr>token := Some tok, userId := Some uid, status := Some st\<rparr>,
      setItem os ''status'' (status_str st)
        (setItem os ''userId'' uid (setItem os ''token'' tok sto))))"

definition setStatus :: "Platform \<Rightarrow> UserStatus \<Rightarrow> Session \<Rightarrow> Session" where
  "setStatus os st = (\<lambda>(u, sto).
     (u\<lparr>status := Some st\<rparr>, setItem os ''status'' (status_str st) sto))"

text \<open>\<open>if (matchId)\<close>: \<open>null\<close> and the empty string are both falsy.\<close>

definition setCurrentMatch :: "Platform \<Rightarrow> string option \<Rightarrow> Session \<Rightarrow> Session" where
  "setCurrentMatch os matchId = (\<lambda>(u, sto).
     (u\<lparr>currentMatchId := matchId\<rparr>,
      (case matchId of
         Some m \<Rightarrow> if truthy_str m then setItem os ''currentMatchId'' m sto
                   else deleteItem os ''currentMatchId'' sto
       | None \<Rightarrow> deleteItem os ''currentMatchId'' sto)))"

definition logout :: "Platform \<Rightarrow> Session \<Rightarrow> Session" where
  "logout os = (\<lambda>(u, sto).
     (u\<lparr>token := None, userId := None, status := None, currentMatchId := None\<rparr>,
      deleteItem os ''currentMatchId''
        (deleteItem os ''status''
          (deleteItem os ''userId''
            (deleteItem os ''token'' sto)))))"

section \<open>The profile-reveal screen (ProfileRevealScreen)\<close>

datatype Route = BlindChat string | Waiting | ProfileReveal string

text \<open>
  The part of the screen's state that the decision flow reads and writes: the React state
  variables \<open>decision\<close>, \<open>submitting\<close> and \<open>waitingForPartner\<close>, whether the interval
  started by \<open>pollForResult\<close> is still active, the route last passed to
  \<open>navigation.replace\<close>, and the user store with its storage.
\<close>

record RevealScreen =
  decision :: "Decision option"
  submitting :: bool
  waitingForPartner :: bool
  polling :: bool
  replaced :: "Route option"
  session :: Session

definition initial_RevealScreen :: "Session \<Rightarrow> RevealScreen" where
  "initial_RevealScreen se =
     \<lparr>decision = None, submitting = False, waitingForPartner = False, polling = False,
      replaced = None, session = se\<rparr>"

definition handleResult :: "Platform \<Rightarrow> string \<Rightarrow> string \<Rightarrow> RevealScreen \<Rightarrow> RevealScreen" where
  "handleResult os matchId st scr =
     (if st = ''continued'' then scr\<lparr>replaced := Some (BlindChat matchId)\<rparr>
      else scr\<lparr>session := setCurrentMatch os None (setStatus os active (session scr)),
               replaced := Some Waiting\<rparr>)"

text \<open>
  \<open>submitDecision\<close>, with the answer of \<open>api.submitDecision\<close> as an argument.  When the
  answer says \<open>waiting_for_partner\<close> the screen starts the polling interval.
\<close>

definition submitDecision ::
  "Platform \<Rightarrow> string \<Rightarrow> Decision \<Rightarrow> DecisionResponse ApiResponse \<Rightarrow> RevealScreen \<Rightarrow> RevealScreen" where
  "submitDecision os matchId choice resp scr =
     (let scr1 = scr\<lparr>decision := Some choice, submitting := True\<rparr>;
          scr2 = scr1\<lparr>submitting := False\<rparr>
      in case resp of
           Inl err \<Rightarrow> scr2
         | Inr d \<Rightarrow>
             if waiting_for_partner d
             then scr2\<lparr>waitingForPartner := True, polling := True\<rparr>
             else handleResult os matchId (match_status d) scr2)"

text \<open>
  One tick of the interval: \<open>if (data && data.status !== 'revealed')\<close> the interval is
  cleared and the result handled; otherwise nothing happens.
\<close>

definition poll_tick ::
  "Platform \<Rightarrow> string \<Rightarrow> MatchSummary ApiResponse \<Rightarrow> RevealScreen \<Rightarrow> RevealScreen" where
  "poll_tick os matchId resp scr =
     (case resp of
        Inl err \<Rightarrow> scr
      | Inr d \<Rightarrow> if ms_status d \<noteq> ''revealed''
                then handleResult os matchId (ms_status d) (scr\<lparr>polling := False\<rparr>)
                else scr)"

text \<open>
  \<open>pollForResult\<close> over the answers that \<open>api.getCurrentMatch\<close> gives at the successive
  ticks; a cleared interval ticks no more.
\<close>

fun pollForResult ::
  "Platform \<Rightarrow> string \<Rightarrow> MatchSummary ApiResponse list \<Rightarrow> RevealScreen \<Rightarrow> RevealScreen" where
  "pollForResult os matchId [] scr = scr"
| "pollForResult os matchId (r # rs) scr =
     (if polling scr then pollForResult os matchId rs (poll_tick os matchId r scr) else scr)"

text \<open>An answer that keeps the interval running: an error, or a match still revealed.\<close>

definition still_revealed :: "MatchSummary ApiResponse \<Rightarrow> bool" where
  "still_revealed resp = (case resp of Inl err \<Rightarrow> True | Inr d \<Rightarrow> ms_status d = ''revealed'')"


section \<open>Configuration and the compatibility meter (config, CompatibilityMeter)\<close>

text \<open>
  Scores are JavaScript numbers: IEEE double-precision values.  A finite double is
  modelled by the real number it denotes, and an arithmetic operation by the exact
  operation followed by \<open>fl64\<close>, rounding to the nearest double (53 significant bits, ties
  to the even significand, the spacing of the subnormals below \<open>2 powi (- 1022)\<close>).
  \<open>expo n x\<close> is the binary exponent of a positive \<open>x\<close>, found in at most \<open>n\<close> halvings or
  doublings; 2200 steps cover every finite double and every product with 100.  Not
  modelled: NaN, and the overflow to infinity, in whose place \<open>fl64\<close> keeps the large
  value (the comparisons of the meter come out the same).
\<close>

fun expo :: "nat \<Rightarrow> real \<Rightarrow> int" where
  "expo 0 x = 0"
| "expo (Suc n) x =
     (if 2 \<le> x then expo n (x / 2) + 1
      else if x < 1 then expo n (x * 2) - 1
      else 0)"

definition round_even :: "real \<Rightarrow> int" where
  "round_even y =
     (let f = \<lfloor>y\<rfloor>; d = y - of_int f
      in if d < 1 / 2 then f else if 1 / 2 < d then f + 1 else if even f then f else f + 1)"

definition fl64 :: "real \<Rightarrow> real" where
  "fl64 x =
     (if x = 0 then 0
      else (let e = max (expo 2200 \<bar>x\<bar>) (- 1022); u = 2 powi (e - 52)
            in sgn x * (of_int (round_even (\<bar>x\<bar> / u)) * u)))"

record Thresholds =
  compatibilityReveal :: real
  minMatchScore :: real

text \<open>The literals \<open>0.80\<close> and \<open>0.50\<close> of the configuration, as the doubles they denote.\<close>

definition config_thresholds :: Thresholds where
  "config_thresholds =
     \<lparr>compatibilityReveal = fl64 (80 / 100), minMatchScore = fl64 (50 / 100)\<rparr>"

text \<open>\<open>Math.round\<close> rounds a double to the nearest integer, halves upwards.\<close>

definition Math_round :: "real \<Rightarrow> int" where
  "Math_round x = \<lfloor>x + 1 / 2\<rfloor>"

text \<open>\<open>Math.round(score * 100)\<close>, the product being a double-precision multiplication.\<close>

definition percentage :: "real \<Rightarrow> int" where
  "percentage score = Math_round (fl64 (score * 100))"

definition getColor :: "real \<Rightarrow> string" where
  "getColor score =
     (if percentage score \<ge> 80 then ''#10B981''
      else if percentage score \<ge> 60 then ''#8B5CF6''
      else if percentage score \<ge> 40 then ''#F59E0B''
      else ''#6B7280'')"

definition getLabel :: "real \<Rightarrow> string" where
  "getLabel score =
     (if percentage score \<ge> 80 then ''Ready to reveal!''
      else if percentage score \<ge> 60 then ''Great connection''
      else if percentage score \<ge> 40 then ''Getting warmer''
      else ''Keep chatting'')"

text \<open>The position of the threshold marker in the meter's style sheet.\<close>

definition threshold_left :: string where
  "threshold_left = ''80%''"

text \<open>The subtitle that the reveal screen shows while the profile is being revealed.\<close>

definition revealingSubtitle :: string where
  "revealingSubtitle = ''You'' @ [CHR 0x27] @ ''ve reached 80% compatibility''"

section \<open>The WebSocket service (services/websocket)\<close>

datatype ReadyState = CONNECTING | OPEN | CLOSING | CLOSED

record WebSocket =
  url :: string
  readyState :: ReadyState

datatype JsError = SyntaxError | TypeError | Thrown string

text \<open>
  The wire envelope \<open>{type, data}\<close>.  The payload type is a parameter: the source
  declares it \<open>any\<close>.
\<close>

record 'd WSMessage =
  msg_type :: string
  msg_data :: 'd

text \<open>
  A handler is a callback of the client; it works on the client's state \<open>'c\<close> and may
  throw, which leaves the state it had reached and the thrown value.
\<close>

type_synonym ('d, 'c) MessageHandler = "'d WSMessage \<Rightarrow> 'c \<Rightarrow> 'c \<times> JsError option"

record ('d, 'c) WebSocketService =
  socket :: "WebSocket option"
  handlers :: "string \<rightharpoonup> ('d, 'c) MessageHandler list"
  reconnectAttempts :: nat
  matchId :: "string option"

definition maxReconnectAttempts :: nat where
  "maxReconnectAttempts = 5"

definition initial_WebSocketService :: "('d, 'c) WebSocketService" where
  "initial_WebSocketService =
     \<lparr>socket = None, handlers = Map.empty, reconnectAttempts = 0, matchId = None\<rparr>"

text \<open>What the service does to the outside: console output, socket calls and timers.\<close>

datatype LogLine =
    WebSocket_connected
  | WebSocket_disconnected
  | Attempting_reconnect nat nat
  | WebSocket_error
  | Failed_to_parse JsError

datatype Effect =
    ConsoleLog LogLine
  | ConsoleError LogLine
  | SocketClose string
  | NewWebSocket string
  | SetTimeout nat

definition ws_url :: "string \<Rightarrow> string \<Rightarrow> string option \<Rightarrow> string" where
  "ws_url base mid tok =
     base @ ''/chat/ws/'' @ mid @ ''?token='' @ (case tok of None \<Rightarrow> ''null'' | Some t \<Rightarrow> t)"

definition disconnect ::
  "('d, 'c) WebSocketService \<Rightarrow> ('d, 'c) WebSocketService \<times> Effect list" where
  "disconnect s =
     (case socket s of
        Some sock \<Rightarrow> (s\<lparr>socket := None, matchId := None\<rparr>, [SocketClose (url sock)])
      | None \<Rightarrow> (s\<lparr>matchId := None\<rparr>, []))"

definition socket_is_open :: "('d, 'c) WebSocketService \<Rightarrow> bool" where
  "socket_is_open s = (case socket s of Some sock \<Rightarrow> readyState sock = OPEN | None \<Rightarrow> False)"

text \<open>
  \<open>connect\<close>: the early return, then \<open>this.matchId = matchId; this.disconnect()\<close> and the
  new socket.  \<open>base\<close> is \<open>WS_BASE_URL\<close> and \<open>tok\<close> the token read from the user store.
\<close>

definition connect ::
  "string \<Rightarrow> string option \<Rightarrow> string \<Rightarrow> ('d, 'c) WebSocketService
     \<Rightarrow> ('d, 'c) WebSocketService \<times> Effect list" where
  "connect base tok mid s =
     (if socket_is_open s \<and> matchId s = Some mid then (s, [])
      else
        (let s1 = s\<lparr>matchId := Some mid\<rparr>;
             (s2, es) = disconnect s1;
             u = ws_url base mid tok
         in (s2\<lparr>socket := Some \<lparr>url = u, readyState = CONNECTING\<rparr>\<rparr>,
             es @ [NewWebSocket u])))"

text \<open>\<open>this.matchId\<close> as a condition: \<open>null\<close> and the empty string are falsy.\<close>

definition truthy_opt :: "string option \<Rightarrow> bool" where
  "truthy_opt x = (case x of None \<Rightarrow> False | Some v \<Rightarrow> truthy_str v)"

definition attemptReconnect ::
  "('d, 'c) WebSocketService \<Rightarrow> ('d, 'c) WebSocketService \<times> Effect list" where
  "attemptReconnect s =
     (if reconnectAttempts s < maxReconnectAttempts \<and> truthy_opt (matchId s)
      then
        (let s1 = s\<lparr>reconnectAttempts := reconnectAttempts s + 1\<rparr>
         in (s1, [ConsoleLog (Attempting_reconnect (reconnectAttempts s1) maxReconnectAttempts),
                  SetTimeout (2000 * reconnectAttempts s1)]))
      else (s, []))"

text \<open>The callback of the timer set by \<open>attemptReconnect\<close>.\<close>

definition reconnect_timer ::
  "string \<Rightarrow> string option \<Rightarrow> ('d, 'c) WebSocketService
     \<Rightarrow> ('d, 'c) WebSocketService \<times> Effect list" where
  "reconnect_timer base tok s =
     (case matchId s of
        Some mid \<Rightarrow> if truthy_str mid then connect base tok mid s else (s, [])
      | None \<Rightarrow> (s, []))"

text \<open>The socket's event handlers, and the state change of the socket that precedes them.\<close>

definition set_readyState :: "ReadyState \<Rightarrow> ('d, 'c) WebSocketService \<Rightarrow> ('d, 'c) WebSocketService" where
  "set_readyState r s = s\<lparr>socket := map_option (\<lambda>sock. sock\<lparr>readyState := r\<rparr>) (socket s)\<rparr>"

definition onopen ::
  "('d, 'c) WebSocketService \<Rightarrow> ('d, 'c) WebSocketService \<times> Effect list" where
  "onopen s = (s\<lparr>reconnectAttempts := 0\<rparr>, [ConsoleLog WebSocket_connected])"

definition onclose ::
  "('d, 'c) WebSocketService \<Rightarrow> ('d, 'c) WebSocketService \<times> Effect list" where
  "onclose s =
     (let (s1, es) = attemptReconnect s in (s1, ConsoleLog WebSocket_disconnected # es))"

definition onerror ::
  "('d, 'c) WebSocketService \<Rightarrow> ('d, 'c) WebSocketService \<times> Effect list" where
  "onerror s = (s, [ConsoleError WebSocket_error])"

definition on ::
  "string \<Rightarrow> ('d, 'c) MessageHandler \<Rightarrow> ('d, 'c) WebSocketService \<Rightarrow> ('d, 'c) WebSocketService" where
  "on ty h s =
     s\<lparr>handlers := (handlers s)(ty \<mapsto> (case handlers s ty of None \<Rightarrow> [] | Some hs \<Rightarrow> hs) @ [h])\<rparr>"

text \<open>\<open>handlers.forEach\<close>: in order, abandoned at the first handler that throws.\<close>

fun forEach :: "('d, 'c) MessageHandler list \<Rightarrow> 'd WSMessage \<Rightarrow> 'c \<Rightarrow> 'c \<times> JsError option" where
  "forEach [] message c = (c, None)"
| "forEach (h # hs) message c =
     (case h message c of
        (c1, Some e) \<Rightarrow> (c1, Some e)
      | (c1, None) \<Rightarrow> forEach hs message c1)"

definition emit ::
  "string \<Rightarrow> 'd WSMessage \<Rightarrow> ('d, 'c) WebSocketService \<Rightarrow> 'c \<Rightarrow> 'c \<times> JsError option" where
  "emit ty message s c =
     (case handlers s ty of None \<Rightarrow> (c, None) | Some hs \<Rightarrow> forEach hs message c)"

text \<open>
  The body of the \<open>try\<close> block of \<open>onmessage\<close>.  \<open>JSON_parse\<close> stands for the library's
  \<open>JSON.parse\<close> read at the declared type \<open>WSMessage\<close>: \<open>Inl\<close> is the exception it throws
  on a payload that does not parse.
\<close>

definition onmessage_try ::
  "(string \<Rightarrow> JsError + 'd WSMessage) \<Rightarrow> string \<Rightarrow> ('d, 'c) WebSocketService \<Rightarrow> 'c
     \<Rightarrow> 'c \<times> JsError option" where
  "onmessage_try JSON_parse raw s c =
     (case JSON_parse raw of
        Inl e \<Rightarrow> (c, Some e)
      | Inr message \<Rightarrow> emit (msg_type message) message s c)"

text \<open>\<open>onmessage\<close>: the \<open>catch\<close> clause logs whatever the body threw.\<close>

definition onmessage ::
  "(string \<Rightarrow> JsError + 'd WSMessage) \<Rightarrow> string \<Rightarrow> ('d, 'c) WebSocketService \<Rightarrow> 'c
     \<Rightarrow> ('d, 'c) WebSocketService \<times> 'c \<times> Effect list" where
  "onmessage JSON_parse raw s c =
     (case onmessage_try JSON_parse raw s c of
        (c1, None) \<Rightarrow> (s, c1, [])
      | (c1, Some e) \<Rightarrow> (s, c1, [ConsoleError (Failed_to_parse e)]))"

text \<open>
  The states the service can be in: from the initial one by the public methods, the
  socket's events and the reconnect timer.
\<close>

inductive reachable ::
  "string \<Rightarrow> string option \<Rightarrow> ('d, 'c) WebSocketService \<Rightarrow> bool"
  for base :: string and tok :: "string option" where
  r_init: "reachable base tok initial_WebSocketService"
| r_connect: "reachable base tok s \<Longrightarrow> reachable base tok (fst (connect base tok mid s))"
| r_disconnect: "reachable base tok s \<Longrightarrow> reachable base tok (fst (disconnect s))"
| r_state: "reachable base tok s \<Longrightarrow> reachable base tok (set_readyState r s)"
| r_onopen: "reachable base tok s \<Longrightarrow> reachable base tok (fst (onopen s))"
| r_onclose: "reachable base tok s \<Longrightarrow> reachable base tok (fst (onclose s))"
| r_onerror: "reachable base tok s \<Longrightarrow> reachable base tok (fst (onerror s))"
| r_timer: "reachable base tok s \<Longrightarrow> reachable base tok (fst (reconnect_timer base tok s))"
| r_on: "reachable base tok s \<Longrightarrow> reachable base tok (on ty h s)"


section \<open>The blind-chat screen (BlindChatScreen)\<close>

record Message =
  msg_id :: string
  sender_id :: string
  content :: string
  created_at :: string
  is_mine :: bool

text \<open>
  \<open>handleNewMessage\<close> as the update it applies to the \<open>messages\<close> state; \<open>uid\<close> is the
  \<open>userId\<close> of the store, which may be \<open>null\<close>.
\<close>

definition handleNewMessage :: "string option \<Rightarrow> Message WSMessage \<Rightarrow> Message list \<Rightarrow> Message list" where
  "handleNewMessage uid msg prev =
     (let newMessage = msg_data msg
      in if Some (sender_id newMessage) \<noteq> uid
         then prev @ [newMessage\<lparr>is_mine := False\<rparr>]
         else prev)"

text \<open>The same callback as it is registered with the service.\<close>

definition message_handler :: "string option \<Rightarrow> (Message, Message list) MessageHandler" where
  "message_handler uid = (\<lambda>msg prev. (handleNewMessage uid msg prev, None))"

section \<open>Configuration of the endpoints and a first connection\<close>

definition WS_URL :: "bool \<Rightarrow> string" where
  "WS_URL dev = (if dev then ''ws://localhost:8000/api'' else ''wss://api.blinddate.app/api'')"

text \<open>
  The service of the chat screen after \<open>connect('match-mock-id')\<close> on a fresh service and
  the open event of the socket it created.
\<close>

definition first_connection :: "(Message, Message list) WebSocketService" where
  "first_connection =
     fst (onopen (set_readyState OPEN
       (fst (connect (WS_URL True) (Some ''mock-token-12345'') ''match-mock-id''
          initial_WebSocketService))))"

text \<open>A match that the backend reports as ended, and the empty storage.\<close>

definition ended_match :: MatchSummary where
  "ended_match =
     \<lparr>ms_id = ''match-mock-id'', partner_pseudonym = ''Sunset Wanderer'',
      initial_compatibility = 58 / 100, current_compatibility = 82 / 100,
      ms_status = ''ended''\<rparr>"

definition empty_Storage :: Storage where
  "empty_Storage = \<lparr>localStorage = Map.empty, secureStore = Map.empty\<rparr>"


section \<open>Theorems\<close>

subsection \<open>verifyOTP\<close>

text \<open>
  Claim C9.  For every phone number and every otp of length at least 1, \<open>verifyOTP\<close>
  succeeds with access token \<open>mock-token-12345\<close>, user id \<open>user-mock-id\<close> and status
  \<open>onboarding\<close>; the result is an error exactly when the otp is the empty string (and the
  API service, which forwards to the mock, answers the same).
\<close>

theorem verifyOTP_accepts_nonempty:
  "(1 \<le> length otp \<longrightarrow>
      verifyOTP phone otp =
        Inr \<lparr>access_token = ''mock-token-12345'', user_id = ''user-mock-id'',
             tr_status = ''onboarding''\<rparr>)
   \<and> (isl (verifyOTP phone otp) \<longleftrightarrow> otp = [])
   \<and> api_verifyOTP request phone otp = verifyOTP phone otp"
  by (cases otp) (simp_all add: verifyOTP_def truthy_str_def api_verifyOTP_def USE_MOCK_API_def)

theorem verifyOTP_accepts_nonempty_witness:
  "1 \<le> length ''0'' \<and>
   verifyOTP ''+15550100'' ''0'' =
     Inr \<lparr>access_token = ''mock-token-12345'', user_id = ''user-mock-id'',
          tr_status = ''onboarding''\<rparr>
   \<and> \<not> isl (verifyOTP ''+15550100'' ''0'')
   \<and> isl (verifyOTP ''+15550100'' '''')"
  using verifyOTP_accepts_nonempty [of "''0''" "''+15550100''"]
        verifyOTP_accepts_nonempty [of "''''" "''+15550100''"]
  by simp

subsection \<open>logout\<close>

text \<open>
  Claim C10.  After \<open>logout\<close> the store's token, userId, status and currentMatchId are
  all null, and the four persisted keys \<open>token\<close>, \<open>userId\<close>, \<open>status\<close> and
  \<open>currentMatchId\<close> are absent from the platform's storage.
\<close>

theorem logout_clears_session:
  "token (fst (logout os (u, sto))) = None
   \<and> userId (fst (logout os (u, sto))) = None
   \<and> status (fst (logout os (u, sto))) = None
   \<and> currentMatchId (fst (logout os (u, sto))) = None
   \<and> getItem os ''token'' (snd (logout os (u, sto))) = None
   \<and> getItem os ''userId'' (snd (logout os (u, sto))) = None
   \<and> getItem os ''status'' (snd (logout os (u, sto))) = None
   \<and> getItem os ''currentMatchId'' (snd (logout os (u, sto))) = None"
  by (simp add: logout_def deleteItem_def getItem_def)

subsection \<open>Decisions on the reveal screen\<close>

lemma api_submitDecision_mock:
  "api_submitDecision request m choice =
     Inr \<lparr>dr_message = ''Decision recorded'', your_decision = decision_str choice,
          waiting_for_partner = True, match_status = ''revealed''\<rparr>"
  by (simp add: api_submitDecision_def USE_MOCK_API_def mock_submitDecision_def)

lemma submitDecision_waiting:
  "waiting_for_partner d \<Longrightarrow>
     submitDecision os m choice (Inr d) scr =
       scr\<lparr>decision := Some choice, submitting := False,
           waitingForPartner := True, polling := True\<rparr>"
  by (simp add: submitDecision_def)

lemma submitDecision_final:
  "\<not> waiting_for_partner d \<Longrightarrow>
     submitDecision os m choice (Inr d) scr =
       handleResult os m (match_status d) (scr\<lparr>decision := Some choice, submitting := False\<rparr>)"
  by (simp add: submitDecision_def)

lemma pollForResult_pending:
  "\<forall>r\<in>set rs. still_revealed r \<Longrightarrow> pollForResult os m rs scr = scr"
  by (induction rs) (auto simp: still_revealed_def poll_tick_def split: sum.splits)

lemma pollForResult_stops:
  assumes "polling scr" and "\<forall>r\<in>set rs. still_revealed r" and "ms_status t \<noteq> ''revealed''"
  shows "pollForResult os m (rs @ Inr t # rs') scr =
           handleResult os m (ms_status t) (scr\<lparr>polling := False\<rparr>)"
  using assms
proof (induction rs)
  case Nil
  then show ?case
    by (cases rs') (simp_all add: poll_tick_def handleResult_def)
next
  case (Cons r rs)
  then show ?case
    by (auto simp: still_revealed_def poll_tick_def split: sum.splits)
qed

text \<open>With the mock API the interval never ends: \<open>getCurrentMatch\<close> always answers an error.\<close>

lemma pollForResult_mock_never_ends:
  "pollForResult os m (replicate n (api_getCurrentMatch request)) scr = scr"
  by (rule pollForResult_pending)
     (simp add: api_getCurrentMatch_def USE_MOCK_API_def mock_getCurrentMatch_def
        still_revealed_def)

text \<open>
  Claim C1, as stated: submitting \<open>pass\<close> returns a terminal outcome (status ended) at
  once, with no waiting-for-partner phase.  It fails: for \<open>pass\<close> the API answers
  \<open>waiting_for_partner = true\<close> with status \<open>revealed\<close>, and the screen enters the waiting
  phase without navigating.
\<close>

theorem pass_not_final_counterexample:
  "api_submitDecision (Inl ''Network error. Please try again.'') ''match-mock-id'' Pass =
     Inr \<lparr>dr_message = ''Decision recorded'', your_decision = ''pass'',
          waiting_for_partner = True, match_status = ''revealed''\<rparr>
   \<and> waitingForPartner (submitDecision Web ''match-mock-id'' Pass
        (api_submitDecision (Inl ''Network error. Please try again.'') ''match-mock-id'' Pass)
        (initial_RevealScreen (initial_UserState, empty_Storage)))
   \<and> replaced (submitDecision Web ''match-mock-id'' Pass
        (api_submitDecision (Inl ''Network error. Please try again.'') ''match-mock-id'' Pass)
        (initial_RevealScreen (initial_UserState, empty_Storage))) = None"
  by (simp add: api_submitDecision_def USE_MOCK_API_def mock_submitDecision_def decision_str_def
      submitDecision_def initial_RevealScreen_def)

text \<open>
  Claim C1, amended.  Every decision, \<open>pass\<close> included, is answered with
  \<open>waiting_for_partner = true\<close> and status \<open>revealed\<close>, and the screen then records the
  choice, shows the waiting phase and starts polling.  The screen finalizes at once only
  on an answer with \<open>waiting_for_partner = false\<close>: it then handles the returned status
  immediately, and every status other than \<open>continued\<close> (so \<open>ended\<close>) leads to the
  Waiting route.
\<close>

theorem decision_answer_waits:
  "api_submitDecision request m choice =
     Inr \<lparr>dr_message = ''Decision recorded'', your_decision = decision_str choice,
          waiting_for_partner = True, match_status = ''revealed''\<rparr>
   \<and> submitDecision os m choice (api_submitDecision request m choice) scr =
       scr\<lparr>decision := Some choice, submitting := False,
           waitingForPartner := True, polling := True\<rparr>
   \<and> (\<not> waiting_for_partner d \<longrightarrow>
        submitDecision os m choice (Inr d) scr =
          handleResult os m (match_status d) (scr\<lparr>decision := Some choice, submitting := False\<rparr>))
   \<and> (st \<noteq> ''continued'' \<longrightarrow> replaced (handleResult os m st scr) = Some Waiting)"
  by (simp add: api_submitDecision_mock submitDecision_waiting submitDecision_final
      handleResult_def)

theorem decision_answer_waits_witness:
  "\<not> waiting_for_partner
       \<lparr>dr_message = ''Decision recorded'', your_decision = ''pass'',
        waiting_for_partner = False, match_status = ''ended''\<rparr>
   \<and> submitDecision Web ''match-mock-id'' Pass
       (Inr \<lparr>dr_message = ''Decision recorded'', your_decision = ''pass'',
             waiting_for_partner = False, match_status = ''ended''\<rparr>)
       (initial_RevealScreen (initial_UserState, empty_Storage))
     = handleResult Web ''match-mock-id'' ''ended''
         ((initial_RevealScreen (initial_UserState, empty_Storage))
            \<lparr>decision := Some Pass, submitting := False\<rparr>)
   \<and> ''ended'' \<noteq> ''continued''
   \<and> replaced (handleResult Web ''match-mock-id'' ''ended''
        (initial_RevealScreen (initial_UserState, empty_Storage))) = Some Waiting"
  using decision_answer_waits
    [where d = "\<lparr>dr_message = ''Decision recorded'', your_decision = ''pass'',
                 waiting_for_partner = False, match_status = ''ended''\<rparr>"
       and st = "''ended''" and os = Web and m = "''match-mock-id''" and choice = Pass
       and scr = "initial_RevealScreen (initial_UserState, empty_Storage)"]
  by simp

text \<open>
  Claim C2, as stated: after a \<open>continue\<close> that is answered with
  \<open>waiting_for_partner = true\<close> the caller learns the terminal outcome later, by polling
  \<open>getCurrentMatch\<close>.  It fails: the API service answers \<open>getCurrentMatch\<close> with the error
  "No active match" whatever the backend would report, here an ended match, so the ticks
  of the interval change nothing: the screen still waits, still polls and has not
  navigated.
\<close>

theorem continue_outcome_counterexample:
  "pollForResult Web ''match-mock-id''
     [api_getCurrentMatch (Inr ended_match), api_getCurrentMatch (Inr ended_match),
      api_getCurrentMatch (Inr ended_match)]
     (submitDecision Web ''match-mock-id'' Continue
        (api_submitDecision (Inl ''Network error. Please try again.'') ''match-mock-id'' Continue)
        (initial_RevealScreen (initial_UserState, empty_Storage)))
   = \<lparr>decision = Some Continue, submitting = False, waitingForPartner = True,
      polling = True, replaced = None, session = (initial_UserState, empty_Storage)\<rparr>"
  by (simp add: api_getCurrentMatch_def USE_MOCK_API_def mock_getCurrentMatch_def
      api_submitDecision_def mock_submitDecision_def submitDecision_def
      initial_RevealScreen_def poll_tick_def)

text \<open>
  Claim C2, amended.  Submitting \<open>continue\<close> is answered with
  \<open>waiting_for_partner = true\<close> and status \<open>revealed\<close>, and the screen then waits and polls
  \<open>getCurrentMatch\<close>.  Answers that are errors or still \<open>revealed\<close> change nothing; only an
  answer whose status is not \<open>revealed\<close> would clear the interval and be handled as the
  outcome.  The API service answers \<open>getCurrentMatch\<close> with an error every time, so
  however often the interval ticks the screen stays as it is and no outcome is learnt.
\<close>

theorem continue_waits_and_polls:
  "api_submitDecision request m Continue =
     Inr \<lparr>dr_message = ''Decision recorded'', your_decision = ''continue'',
          waiting_for_partner = True, match_status = ''revealed''\<rparr>
   \<and> submitDecision os m Continue (api_submitDecision request m Continue) scr =
       scr\<lparr>decision := Some Continue, submitting := False,
           waitingForPartner := True, polling := True\<rparr>
   \<and> ((\<forall>r\<in>set rs. still_revealed r) \<longrightarrow> pollForResult os m rs scr = scr)
   \<and> (polling scr \<and> (\<forall>r\<in>set rs. still_revealed r) \<and> ms_status t \<noteq> ''revealed'' \<longrightarrow>
        pollForResult os m (rs @ Inr t # rs') scr =
          handleResult os m (ms_status t) (scr\<lparr>polling := False\<rparr>))
   \<and> pollForResult os m (replicate n (api_getCurrentMatch request')) scr = scr"
  by (simp add: api_submitDecision_mock submitDecision_waiting pollForResult_pending
      pollForResult_stops pollForResult_mock_never_ends decision_str_def)

theorem continue_waits_and_polls_witness:
  "still_revealed (Inl ''No active match'')
   \<and> still_revealed
        (Inr \<lparr>ms_id = ''match-mock-id'', partner_pseudonym = ''Sunset Wanderer'',
              initial_compatibility = 58 / 100, current_compatibility = 82 / 100,
              ms_status = ''revealed''\<rparr>)
   \<and> polling ((initial_RevealScreen (initial_UserState, empty_Storage))
        \<lparr>decision := Some Continue, waitingForPartner := True, polling := True\<rparr>)
   \<and> ''continued'' \<noteq> ''revealed''
   \<and> pollForResult Web ''match-mock-id''
        ([Inl ''No active match'',
          Inr \<lparr>ms_id = ''match-mock-id'', partner_pseudonym = ''Sunset Wanderer'',
               initial_compatibility = 58 / 100, current_compatibility = 82 / 100,
               ms_status = ''revealed''\<rparr>]
         @ Inr \<lparr>ms_id = ''match-mock-id'', partner_pseudonym = ''Sunset Wanderer'',
                initial_compatibility = 58 / 100, current_compatibility = 82 / 100,
                ms_status = ''continued''\<rparr> # [])
        ((initial_RevealScreen (initial_UserState, empty_Storage))
           \<lparr>decision := Some Continue, waitingForPartner := True, polling := True\<rparr>)
     = (initial_RevealScreen (initial_UserState, empty_Storage))
         \<lparr>decision := Some Continue, waitingForPartner := True, polling := False,
          replaced := Some (BlindChat ''match-mock-id'')\<rparr>"
  using continue_waits_and_polls
    [where rs = "[Inl ''No active match'',
              Inr \<lparr>ms_id = ''match-mock-id'', partner_pseudonym = ''Sunset Wanderer'',
                   initial_compatibility = 58 / 100, current_compatibility = 82 / 100,
                   ms_status = ''revealed''\<rparr>]"
       and t = "\<lparr>ms_id = ''match-mock-id'', partner_pseudonym = ''Sunset Wanderer'',
                initial_compatibility = 58 / 100, current_compatibility = 82 / 100,
                ms_status = ''continued''\<rparr>"
       and rs' = "[]" and os = Web and m = "''match-mock-id''"
       and scr = "(initial_RevealScreen (initial_UserState, empty_Storage))
           \<lparr>decision := Some Continue, waitingForPartner := True, polling := True\<rparr>"]
  by (simp add: still_revealed_def handleResult_def initial_RevealScreen_def)


subsection \<open>The compatibility meter and the configured threshold\<close>

lemma expo_numeral:
  "expo (numeral k) x =
     (if 2 \<le> x then expo (pred_numeral k) (x / 2) + 1
      else if x < 1 then expo (pred_numeral k) (x * 2) - 1
      else 0)"
  by (simp add: numeral_eq_Suc)

lemma expo_lower: "1 \<le> x \<Longrightarrow> 0 \<le> expo n x \<and> 2 powi (expo n x) \<le> x"
proof (induction n arbitrary: x)
  case 0
  then show ?case by simp
next
  case (Suc n)
  show ?case
  proof (cases "2 \<le> x")
    case True
    then have "1 \<le> x / 2" by simp
    from Suc.IH [OF this]
    have ih: "0 \<le> expo n (x / 2)" "2 powi (expo n (x / 2)) \<le> x / 2"
      by simp_all
    have "(2::real) powi (expo n (x / 2) + 1) = 2 powi (expo n (x / 2)) * 2"
      by (simp add: power_int_add)
    with ih True show ?thesis by simp
  next
    case False
    with Suc.prems show ?thesis by simp
  qed
qed

lemma round_even_lower: "y - 1 / 2 \<le> of_int (round_even y)"
  unfolding round_even_def Let_def by (auto; linarith)

text \<open>Rounding to a double loses less than the half percent that the meter needs.\<close>

lemma fl64_ge:
  assumes "80 \<le> p"
  shows "159 / 2 \<le> fl64 p"
proof -
  define e where "e = expo 2200 p"
  define u :: real where "u = 2 powi (e - 52)"
  from assms have p1: "1 \<le> p" by simp
  from expo_lower [OF p1, of 2200] have e0: "0 \<le> e" and le: "2 powi e \<le> p"
    by (simp_all add: e_def)
  have upos: "0 < u" by (simp add: u_def)
  have u_eq: "u = 2 powi e / 2 ^ 52"
    by (simp add: u_def power_int_diff)
  have "p / u - 1 / 2 \<le> of_int (round_even (p / u))" by (rule round_even_lower)
  then have "(p / u - 1 / 2) * u \<le> of_int (round_even (p / u)) * u"
    using upos by (simp only: mult_le_cancel_right_pos)
  moreover have "(p / u - 1 / 2) * u = p - u / 2"
    using upos by (simp add: field_simps)
  ultimately have a: "p - u / 2 \<le> of_int (round_even (p / u)) * u"
    by simp
  have "u / 2 \<le> p / 2 ^ 53" using le by (simp add: u_eq)
  with a have b: "p - p / 2 ^ 53 \<le> of_int (round_even (p / u)) * u" by linarith
  have "fl64 p = of_int (round_even (p / u)) * u"
    using assms e0 by (simp add: fl64_def Let_def e_def [symmetric] u_def max_def)
  with b assms show ?thesis by simp
qed

lemma compatibilityReveal_value:
  "compatibilityReveal config_thresholds = 3602879701896397 / 4503599627370496"
  by (simp add: config_thresholds_def fl64_def expo_numeral round_even_def Let_def
      power_int_minus)

lemma percentage_ready: "(80 \<le> percentage s) = (159 / 2 \<le> fl64 (s * 100))"
  unfolding percentage_def Math_round_def by (auto simp: le_floor_iff)

lemma fl64_product_exact: "fl64 (51 / 64 * 100) = 1275 / 16"
  by (simp add: fl64_def expo_numeral round_even_def Let_def power_int_minus)

lemma percentage_exact_product: "percentage (51 / 64) = 80"
  unfolding percentage_def Math_round_def fl64_product_exact by simp

text \<open>
  The double \<open>0.7949999999999999\<close>: its product with 100 is rounded up to 79.5, and the
  meter shows 80 percent.
\<close>

lemma fl64_product_rounds_up: "fl64 (447545212969943 / 562949953421312 * 100) = 159 / 2"
  by (simp add: fl64_def expo_numeral round_even_def Let_def power_int_minus)

lemma percentage_just_below: "percentage (447545212969943 / 562949953421312) = 80"
  unfolding percentage_def Math_round_def fl64_product_rounds_up by simp

text \<open>
  Claim C3, as stated: the meter shows "ready to reveal" if and only if the score is at or
  above the configured threshold.  It fails at the score 51/64 (the double 0.796875, whose
  product with 100 is exact): the meter rounds it to 80 percent and shows ready, while
  the score is below the configured 0.80.
\<close>

theorem meter_ready_counterexample:
  "getLabel (51 / 64) = ''Ready to reveal!''
   \<and> getColor (51 / 64) = ''#10B981''
   \<and> \<not> (compatibilityReveal config_thresholds \<le> 51 / 64)"
  by (simp add: getLabel_def getColor_def percentage_exact_product
      compatibilityReveal_value)

text \<open>
  Claim C3, amended.  The display does not read the configured threshold.  Label and
  colour of the meter compare \<open>Math.round(score * 100)\<close> with the literal 80: the meter
  shows ready exactly when this rounded percentage is at least 80, that is when the
  double-precision product is at least 79.5.  Every score at or above the configured
  threshold shows ready, but not only those.  The threshold marker stands at the literal
  80 percent and the text of the reveal screen names the literal 80 percent.
\<close>

theorem meter_ready_iff_rounded:
  "(getLabel s = ''Ready to reveal!'') = (80 \<le> Math_round (fl64 (s * 100)))
   \<and> (getColor s = ''#10B981'') = (80 \<le> Math_round (fl64 (s * 100)))
   \<and> (80 \<le> Math_round (fl64 (s * 100))) = (159 / 2 \<le> fl64 (s * 100))
   \<and> (compatibilityReveal config_thresholds \<le> s \<longrightarrow>
        getLabel s = ''Ready to reveal!'' \<and> getColor s = ''#10B981'')
   \<and> threshold_left = ''80%''
   \<and> revealingSubtitle = ''You'' @ [CHR 0x27] @ ''ve reached 80% compatibility''"
proof -
  have ready: "(80 \<le> Math_round (fl64 (s * 100))) = (159 / 2 \<le> fl64 (s * 100))"
    using percentage_ready [of s] by (simp add: percentage_def)
  have above: "159 / 2 \<le> fl64 (s * 100)" if "compatibilityReveal config_thresholds \<le> s"
  proof -
    from that have "80 \<le> s * 100" by (simp add: compatibilityReveal_value)
    then show ?thesis by (rule fl64_ge)
  qed
  show ?thesis
    using ready above
    by (simp add: getLabel_def getColor_def percentage_def threshold_left_def
        revealingSubtitle_def)
qed

theorem meter_ready_iff_rounded_witness:
  "compatibilityReveal config_thresholds \<le> 82 / 100
   \<and> getLabel (82 / 100) = ''Ready to reveal!'' \<and> getColor (82 / 100) = ''#10B981''"
  using meter_ready_iff_rounded [of "82 / 100"]
  by (simp add: compatibilityReveal_value)


subsection \<open>Reconnection and repeated connects\<close>

text \<open>
  \<open>connect\<close> stores the match id and then calls \<open>disconnect\<close>, which clears it again: the
  stored match id is null after every call of a public method, event handler or timer, and
  the attempt counter never leaves zero.
\<close>

lemma reachable_invariant:
  "reachable base tok s \<Longrightarrow> matchId s = None \<and> reconnectAttempts s = 0"
proof (induction rule: reachable.induct)
  case r_init
  then show ?case by (simp add: initial_WebSocketService_def)
next
  case (r_connect s mid)
  then show ?case by (simp add: connect_def disconnect_def Let_def split: option.splits)
next
  case (r_disconnect s)
  then show ?case by (simp add: disconnect_def split: option.splits)
next
  case (r_state s r)
  then show ?case by (simp add: set_readyState_def)
next
  case (r_onopen s)
  then show ?case by (simp add: onopen_def)
next
  case (r_onclose s)
  then show ?case by (simp add: onclose_def attemptReconnect_def truthy_opt_def)
next
  case (r_onerror s)
  then show ?case by (simp add: onerror_def)
next
  case (r_timer s)
  then show ?case by (simp add: reconnect_timer_def)
next
  case (r_on s ty h)
  then show ?case by (simp add: on_def)
qed

lemma reachable_onclose_no_retry:
  "reachable base tok s \<Longrightarrow> onclose s = (s, [ConsoleLog WebSocket_disconnected])"
  by (drule reachable_invariant) (simp add: onclose_def attemptReconnect_def truthy_opt_def)

lemma reachable_connect_no_early_return:
  "reachable base tok s \<Longrightarrow> snd (connect base tok mid s) \<noteq> []"
  by (drule reachable_invariant)
     (simp add: connect_def disconnect_def Let_def split: option.splits)

lemma connect_guard:
  "socket_is_open s \<Longrightarrow> matchId s = Some mid \<Longrightarrow> connect base tok mid s = (s, [])"
  by (simp add: connect_def)

text \<open>
  What \<open>attemptReconnect\<close> is written to do when a match id is stored: count the attempt
  and set a timer of \<open>2000 * n\<close> milliseconds, up to five attempts.
\<close>

lemma attemptReconnect_cases:
  "(reconnectAttempts s < 5 \<and> matchId s = Some mid \<and> mid \<noteq> [] \<longrightarrow>
      attemptReconnect s =
        (s\<lparr>reconnectAttempts := reconnectAttempts s + 1\<rparr>,
         [ConsoleLog (Attempting_reconnect (reconnectAttempts s + 1) 5),
          SetTimeout (2000 * (reconnectAttempts s + 1))]))
   \<and> (5 \<le> reconnectAttempts s \<or> matchId s = None \<longrightarrow> attemptReconnect s = (s, []))"
  by (auto simp: attemptReconnect_def maxReconnectAttempts_def truthy_opt_def truthy_str_def)

text \<open>
  Claim C4: on an unexpected close the session retries, up to five times and 2 seconds
  times \<open>n\<close> before attempt \<open>n\<close>.  At the service left by \<open>connect('match-mock-id')\<close> and
  the open event of its socket, the close event only logs the disconnect: the stored
  match id is null, so no attempt is counted and no timer is set, and the callback of
  such a timer would not reconnect either.
\<close>

theorem close_after_connect_no_retry:
  "socket_is_open first_connection
   \<and> matchId first_connection = None
   \<and> onclose (set_readyState CLOSED first_connection) =
       (set_readyState CLOSED first_connection, [ConsoleLog WebSocket_disconnected])
   \<and> reconnectAttempts (fst (onclose (set_readyState CLOSED first_connection))) = 0
   \<and> reconnect_timer (WS_URL True) (Some ''mock-token-12345'')
        (set_readyState CLOSED first_connection) =
       (set_readyState CLOSED first_connection, [])"
  by (simp add: first_connection_def connect_def disconnect_def onopen_def onclose_def
      set_readyState_def socket_is_open_def initial_WebSocketService_def
      attemptReconnect_def reconnect_timer_def truthy_opt_def Let_def)

text \<open>
  Claim C8: \<open>connect\<close> on a socket that is open for the same match changes nothing.  At
  the service left by a first \<open>connect('match-mock-id')\<close> and the socket's open event the
  socket is open on the URL of that match, but the stored match id is null, and a second
  \<open>connect('match-mock-id')\<close> closes the socket and creates a new one.
\<close>

theorem connect_again_replaces_socket:
  "socket first_connection =
     Some \<lparr>url = ''ws://localhost:8000/api/chat/ws/match-mock-id?token=mock-token-12345'',
           readyState = OPEN\<rparr>
   \<and> matchId first_connection = None
   \<and> snd (connect (WS_URL True) (Some ''mock-token-12345'') ''match-mock-id'' first_connection) =
       [SocketClose ''ws://localhost:8000/api/chat/ws/match-mock-id?token=mock-token-12345'',
        NewWebSocket ''ws://localhost:8000/api/chat/ws/match-mock-id?token=mock-token-12345'']
   \<and> socket (fst (connect (WS_URL True) (Some ''mock-token-12345'') ''match-mock-id''
        first_connection)) =
       Some \<lparr>url = ''ws://localhost:8000/api/chat/ws/match-mock-id?token=mock-token-12345'',
             readyState = CONNECTING\<rparr>"
  by (simp add: first_connection_def connect_def disconnect_def onopen_def set_readyState_def
      socket_is_open_def initial_WebSocketService_def ws_url_def WS_URL_def Let_def)


subsection \<open>Inbound frames\<close>

text \<open>
  Claim C5.  A frame whose payload does not parse is dropped and logged: \<open>onmessage\<close>
  returns normally with one console error, no handler has run (the client's state is
  unchanged) and the service, its socket included, is as before.  No frame at all changes
  the service.
\<close>

theorem malformed_frame_dropped:
  "(JSON_parse raw = Inl e \<longrightarrow>
      onmessage JSON_parse raw s c = (s, c, [ConsoleError (Failed_to_parse e)]))
   \<and> fst (onmessage JSON_parse raw s c) = s"
  by (simp add: onmessage_def onmessage_try_def split: sum.splits prod.splits option.splits)

theorem malformed_frame_dropped_witness:
  "(\<lambda>raw. Inl SyntaxError :: JsError + Message WSMessage) ''<html>'' = Inl SyntaxError
   \<and> onmessage (\<lambda>raw. Inl SyntaxError) ''<html>''
       (on ''message'' (message_handler (Some ''user-mock-id'')) first_connection) []
     = (on ''message'' (message_handler (Some ''user-mock-id'')) first_connection, [],
        [ConsoleError (Failed_to_parse SyntaxError)])"
  using malformed_frame_dropped
    [where JSON_parse = "\<lambda>raw. Inl SyntaxError :: JsError + Message WSMessage"
       and raw = "''<html>''" and e = SyntaxError
       and s = "on ''message'' (message_handler (Some ''user-mock-id'')) first_connection"
       and c = "[]"]
  by simp


subsection \<open>Incoming chat messages\<close>

lemma onmessage_delivers:
  "JSON_parse raw = Inr msg \<Longrightarrow> msg_type msg = ''message'' \<Longrightarrow>
     onmessage JSON_parse raw (on ''message'' (message_handler uid) initial_WebSocketService) prev
       = (on ''message'' (message_handler uid) initial_WebSocketService,
          handleNewMessage uid msg prev, [])"
  by (simp add: onmessage_def onmessage_try_def emit_def on_def initial_WebSocketService_def
      message_handler_def)

text \<open>
  Claim C6.  An incoming message event is appended to the conversation (marked as not
  mine) if and only if its \<open>sender_id\<close> differs from the local \<open>userId\<close>; an event of the
  local user leaves the conversation as it is.
\<close>

theorem own_message_not_appended:
  "(handleNewMessage uid msg prev = prev @ [(msg_data msg)\<lparr>is_mine := False\<rparr>])
     = (Some (sender_id (msg_data msg)) \<noteq> uid)
   \<and> (handleNewMessage uid msg prev = prev) = (Some (sender_id (msg_data msg)) = uid)"
  by (simp add: handleNewMessage_def Let_def)

text \<open>
  Claim C7, as stated: delivering the same message event twice leaves the receiver's list
  equal to delivering it once.  It fails: the second delivery appends a second copy.
\<close>

theorem redelivery_counterexample:
  "handleNewMessage (Some ''user-mock-id'')
     \<lparr>msg_type = ''message'',
      msg_data = \<lparr>msg_id = ''msg-1'', sender_id = ''other-user'', content = ''Hey!'',
                  created_at = ''2024-01-01T00:00:00.000Z'', is_mine = False\<rparr>\<rparr>
     (handleNewMessage (Some ''user-mock-id'')
        \<lparr>msg_type = ''message'',
         msg_data = \<lparr>msg_id = ''msg-1'', sender_id = ''other-user'', content = ''Hey!'',
                     created_at = ''2024-01-01T00:00:00.000Z'', is_mine = False\<rparr>\<rparr> [])
   \<noteq> handleNewMessage (Some ''user-mock-id'')
        \<lparr>msg_type = ''message'',
         msg_data = \<lparr>msg_id = ''msg-1'', sender_id = ''other-user'', content = ''Hey!'',
                     created_at = ''2024-01-01T00:00:00.000Z'', is_mine = False\<rparr>\<rparr> []"
  by (simp add: handleNewMessage_def Let_def)

text \<open>
  Claim C7, amended.  The receiver does not deduplicate: a message event of another sender
  is appended at every delivery, so delivering it twice appends two copies; only an event
  of the local user, which is never appended, is unaffected by redelivery.
\<close>

theorem redelivery_appends_again:
  "(Some (sender_id (msg_data msg)) \<noteq> uid \<longrightarrow>
      handleNewMessage uid msg (handleNewMessage uid msg prev)
        = prev @ [(msg_data msg)\<lparr>is_mine := False\<rparr>, (msg_data msg)\<lparr>is_mine := False\<rparr>])
   \<and> (Some (sender_id (msg_data msg)) = uid \<longrightarrow>
      handleNewMessage uid msg (handleNewMessage uid msg prev) = prev)"
  by (simp add: handleNewMessage_def Let_def)

theorem redelivery_appends_again_witness:
  "Some (sender_id (msg_data
       \<lparr>msg_type = ''message'',
        msg_data = \<lparr>msg_id = ''msg-1'', sender_id = ''other-user'', content = ''Hey!'',
                    created_at = ''2024-01-01T00:00:00.000Z'', is_mine = False\<rparr>\<rparr>))
     \<noteq> Some ''user-mock-id''
   \<and> length (handleNewMessage (Some ''user-mock-id'')
        \<lparr>msg_type = ''message'',
         msg_data = \<lparr>msg_id = ''msg-1'', sender_id = ''other-user'', content = ''Hey!'',
                     created_at = ''2024-01-01T00:00:00.000Z'', is_mine = False\<rparr>\<rparr>
        (handleNewMessage (Some ''user-mock-id'')
           \<lparr>msg_type = ''message'',
            msg_data = \<lparr>msg_id = ''msg-1'', sender_id = ''other-user'', content = ''Hey!'',
                        created_at = ''2024-01-01T00:00:00.000Z'', is_mine = False\<rparr>\<rparr> [])) = 2
   \<and> Some (sender_id (msg_data
       \<lparr>msg_type = ''message'',
        msg_data = \<lparr>msg_id = ''msg-2'', sender_id = ''user-mock-id'', content = ''Hi'',
                    created_at = ''2024-01-01T00:00:01.000Z'', is_mine = True\<rparr>\<rparr>))
     = Some ''user-mock-id''
   \<and> handleNewMessage (Some ''user-mock-id'')
        \<lparr>msg_type = ''message'',
         msg_data = \<lparr>msg_id = ''msg-2'', sender_id = ''user-mock-id'', content = ''Hi'',
                     created_at = ''2024-01-01T00:00:01.000Z'', is_mine = True\<rparr>\<rparr>
        (handleNewMessage (Some ''user-mock-id'')
           \<lparr>msg_type = ''message'',
            msg_data = \<lparr>msg_id = ''msg-2'', sender_id = ''user-mock-id'', content = ''Hi'',
                        created_at = ''2024-01-01T00:00:01.000Z'', is_mine = True\<rparr>\<rparr> []) = []"
  using redelivery_appends_again
          [where uid = "Some ''user-mock-id''" and prev = "[]"
             and msg = "\<lparr>msg_type = ''message'',
               msg_data = \<lparr>msg_id = ''msg-1'', sender_id = ''other-user'', content = ''Hey!'',
                           created_at = ''2024-01-01T00:00:00.000Z'', is_mine = False\<rparr>\<rparr>"]
        redelivery_appends_again
          [where uid = "Some ''user-mock-id''" and prev = "[]"
             and msg = "\<lparr>msg_type = ''message'',
               msg_data = \<lparr>msg_id = ''msg-2'', sender_id = ''user-mock-id'', content = ''Hi'',
                           created_at = ''2024-01-01T00:00:01.000Z'', is_mine = True\<rparr>\<rparr>"]
  by simp


end
